theory Spec2Isabelle
  imports Complex_Main
begin

section \<open>JavaScript numbers\<close>

text \<open>
  Every numeric value of \<^verbatim>\<open>src/Stats.js\<close> is a JavaScript Number. A Number is
  \<^verbatim>\<open>NaN\<close>, one of the two infinities, or a finite binary fraction; the finite
  ones are embedded in the rationals. The two zeros are identified: the sign of a zero
  only selects the sign of the infinity that a division by it produces, and it is
  printed as \<^verbatim>\<open>0\<close> either way.
\<close>

datatype jsnum = NaN | NegInf | Fin rat | PosInf

fun is_finite :: "jsnum \<Rightarrow> bool" where
  "is_finite (Fin q) = True"
| "is_finite x = False"

fun is_neg :: "jsnum \<Rightarrow> bool" where
  "is_neg NegInf = True"
| "is_neg (Fin q) = (q < 0)"
| "is_neg x = False"

definition signed_inf :: "bool \<Rightarrow> jsnum" where
  "signed_inf neg = (if neg then NegInf else PosInf)"

text \<open>The relational operators \<^verbatim>\<open><=\<close> and \<^verbatim>\<open><\<close>: false as soon as an operand is \<^verbatim>\<open>NaN\<close>.\<close>

fun js_le :: "jsnum \<Rightarrow> jsnum \<Rightarrow> bool" where
  "js_le NaN b = False"
| "js_le a NaN = False"
| "js_le NegInf b = True"
| "js_le a PosInf = True"
| "js_le (Fin x) (Fin y) = (x \<le> y)"
| "js_le a b = False"

fun js_lt :: "jsnum \<Rightarrow> jsnum \<Rightarrow> bool" where
  "js_lt NaN b = False"
| "js_lt a NaN = False"
| "js_lt (Fin x) (Fin y) = (x < y)"
| "js_lt NegInf b = (b \<noteq> NegInf)"
| "js_lt a PosInf = (a \<noteq> PosInf)"
| "js_lt a b = False"

text \<open>
  \<^verbatim>\<open>Math.min\<close>, \<^verbatim>\<open>Math.max\<close> and \<^verbatim>\<open>Math.round\<close> are exact on Numbers: the first two
  return one of their arguments (\<^verbatim>\<open>NaN\<close> if either is), and \<^verbatim>\<open>Math.round\<close> returns
  the nearest integer, the larger one at a tie.
\<close>

definition Math_min :: "jsnum \<Rightarrow> jsnum \<Rightarrow> jsnum" where
  "Math_min a b = (if a = NaN \<or> b = NaN then NaN else if js_le a b then a else b)"

definition Math_max :: "jsnum \<Rightarrow> jsnum \<Rightarrow> jsnum" where
  "Math_max a b = (if a = NaN \<or> b = NaN then NaN else if js_le a b then b else a)"

fun Math_round :: "jsnum \<Rightarrow> jsnum" where
  "Math_round (Fin q) = Fin (of_int \<lfloor>q + 1 / 2\<rfloor>)"
| "Math_round x = x"

text \<open>
  The arithmetic operators round their exact result to a Number. The rounding function
  \<open>fl\<close> of the runtime is a parameter: it is applied to the exact result of two finite
  operands and may return any Number (an overflow returns an infinity). The results for
  the other operands are those of IEEE 754.
\<close>

fun js_neg :: "jsnum \<Rightarrow> jsnum" where
  "js_neg NaN = NaN"
| "js_neg NegInf = PosInf"
| "js_neg PosInf = NegInf"
| "js_neg (Fin q) = Fin (- q)"

fun js_add :: "(rat \<Rightarrow> jsnum) \<Rightarrow> jsnum \<Rightarrow> jsnum \<Rightarrow> jsnum" where
  "js_add fl (Fin x) (Fin y) = fl (x + y)"
| "js_add fl a b =
     (if a = NaN \<or> b = NaN then NaN
      else if is_finite a then b
      else if is_finite b \<or> a = b then a
      else NaN)"

definition js_sub :: "(rat \<Rightarrow> jsnum) \<Rightarrow> jsnum \<Rightarrow> jsnum \<Rightarrow> jsnum" where
  "js_sub fl a b = js_add fl a (js_neg b)"

fun js_mul :: "(rat \<Rightarrow> jsnum) \<Rightarrow> jsnum \<Rightarrow> jsnum \<Rightarrow> jsnum" where
  "js_mul fl (Fin x) (Fin y) = fl (x * y)"
| "js_mul fl a b =
     (if a = NaN \<or> b = NaN \<or> a = Fin 0 \<or> b = Fin 0 then NaN
      else signed_inf (is_neg a \<noteq> is_neg b))"

fun js_div :: "(rat \<Rightarrow> jsnum) \<Rightarrow> jsnum \<Rightarrow> jsnum \<Rightarrow> jsnum" where
  "js_div fl (Fin x) (Fin y) =
     (if y = 0 then (if x = 0 then NaN else signed_inf (x < 0)) else fl (x / y))"
| "js_div fl a b =
     (if a = NaN \<or> b = NaN then NaN
      else if is_finite a then Fin 0
      else if is_finite b then signed_inf (is_neg a \<noteq> is_neg b)
      else NaN)"

text \<open>
  Conversion to a string, as a template literal does it. An integer below \<open>2^53\<close> in
  magnitude is printed in decimal; the text of any other finite Number (the shortest
  digits that read back as the same Number) is left to the runtime's \<open>numstr\<close>.
\<close>

definition digit_char :: "nat \<Rightarrow> char" where
  "digit_char d = ''0123456789'' ! d"

fun show_nat :: "nat \<Rightarrow> string" where
  "show_nat n = (if n < 10 then [digit_char n] else show_nat (n div 10) @ [digit_char (n mod 10)])"

declare show_nat.simps [simp del]

definition show_int :: "int \<Rightarrow> string" where
  "show_int i = (if i < 0 then CHR ''-'' # show_nat (nat (- i)) else show_nat (nat i))"

fun js_toString :: "(rat \<Rightarrow> string) \<Rightarrow> jsnum \<Rightarrow> string" where
  "js_toString numstr NaN = ''NaN''"
| "js_toString numstr PosInf = ''Infinity''"
| "js_toString numstr NegInf = ''-Infinity''"
| "js_toString numstr (Fin q) =
     (if of_int \<lfloor>q\<rfloor> = q \<and> \<bar>q\<bar> < 2 ^ 53 then show_int \<lfloor>q\<rfloor> else numstr q)"

text \<open>Truthiness of a Number that may be missing: \<^verbatim>\<open>undefined\<close>, \<^verbatim>\<open>0\<close> and \<^verbatim>\<open>NaN\<close> are falsy.\<close>

fun truthy_num :: "jsnum option \<Rightarrow> bool" where
  "truthy_num None = False"
| "truthy_num (Some x) = (x \<noteq> NaN \<and> x \<noteq> Fin 0)"

text \<open>\<^verbatim>\<open>x || d\<close> on Numbers, and a parameter with a default value.\<close>

fun js_or :: "jsnum option \<Rightarrow> jsnum \<Rightarrow> jsnum" where
  "js_or None d = d"
| "js_or (Some x) d = (if truthy_num (Some x) then x else d)"

fun dflt :: "'a \<Rightarrow> 'a option \<Rightarrow> 'a" where
  "dflt d None = d"
| "dflt d (Some x) = x"

section \<open>The environment\<close>

text \<open>
  What the program reads from its host: the rounding and the printing of Numbers, and
  the two properties of \<^verbatim>\<open>window\<close> it looks at. \<open>None\<close> is \<^verbatim>\<open>undefined\<close>.
\<close>

datatype memory_info = MemoryInfo (usedJSHeapSize: jsnum) (jsHeapSizeLimit: jsnum)

datatype performance = Performance (memory: "memory_info option")

record runtime =
  fl :: "rat \<Rightarrow> jsnum"
  numstr :: "rat \<Rightarrow> string"
  devicePixelRatio :: "jsnum option"
  window_performance :: "performance option"

text \<open>
  The document: elements are numbered in the order of their creation. An element has an
  inline style, of which the program writes \<^verbatim>\<open>cssText\<close> and \<^verbatim>\<open>display\<close>, and a list of
  child elements. Assigning \<^verbatim>\<open>cssText\<close> replaces the whole inline style, so it unsets
  \<^verbatim>\<open>display\<close>. \<^verbatim>\<open>appendChild\<close> takes the node out of the parent it has, if any, and
  makes it the last child of the new parent. The elements that the program appends are
  the canvases of panels; a document refuses, with an exception, to append an element to
  itself or below itself, and that refusal is not modelled.
\<close>

record css_style =
  cssText :: string
  display :: string

record element =
  tagName :: string
  style :: css_style
  children :: "nat list"

record document =
  nextId :: nat
  elems :: "nat \<Rightarrow> element"

definition new_element :: "string \<Rightarrow> element" where
  "new_element tag =
     \<lparr>tagName = tag, style = \<lparr>cssText = [], display = []\<rparr>, children = []\<rparr>"

definition createElement :: "string \<Rightarrow> document \<Rightarrow> nat \<times> document" where
  "createElement tag d =
     (nextId d, d\<lparr>nextId := Suc (nextId d), elems := (elems d)(nextId d := new_element tag)\<rparr>)"

definition set_cssText :: "nat \<Rightarrow> string \<Rightarrow> document \<Rightarrow> document" where
  "set_cssText e v d =
     d\<lparr>elems := (elems d)(e := (elems d e)\<lparr>style := \<lparr>cssText = v, display = []\<rparr>\<rparr>)\<rparr>"

definition set_display :: "nat \<Rightarrow> string \<Rightarrow> document \<Rightarrow> document" where
  "set_display e v d =
     d\<lparr>elems := (elems d)(e := (elems d e)\<lparr>style := (style (elems d e))\<lparr>display := v\<rparr>\<rparr>)\<rparr>"

definition detach :: "nat \<Rightarrow> element \<Rightarrow> element" where
  "detach n e = e\<lparr>children := removeAll n (children e)\<rparr>"

definition appendChild :: "nat \<Rightarrow> nat \<Rightarrow> document \<Rightarrow> document" where
  "appendChild parent n d =
     d\<lparr>elems := (\<lambda>k. if k = parent
                       then (detach n (elems d k))\<lparr>children := children (detach n (elems d k)) @ [n]\<rparr>
                       else detach n (elems d k))\<rparr>"

text \<open>
  The size of a canvas. \<^verbatim>\<open>canvas.width\<close> and \<^verbatim>\<open>canvas.height\<close> are attributes of type
  \<^verbatim>\<open>unsigned long\<close>: the Number assigned is converted as Web IDL says (\<^verbatim>\<open>NaN\<close> and the
  infinities to 0, any other Number truncated towards zero and reduced modulo \<open>2^32\<close>),
  and a result above \<open>2^31 - 1\<close> is replaced by the default of the attribute, 300 for the
  width and 150 for the height.
\<close>

definition ToUint32 :: "jsnum \<Rightarrow> nat" where
  "ToUint32 x =
     (case x of
        Fin q \<Rightarrow> nat ((if q < 0 then - \<lfloor>- q\<rfloor> else \<lfloor>q\<rfloor>) mod 2 ^ 32)
      | _ \<Rightarrow> 0)"

definition reflect_unsigned_long :: "nat \<Rightarrow> jsnum \<Rightarrow> nat" where
  "reflect_unsigned_long default_value x =
     (if ToUint32 x \<le> 2147483647 then ToUint32 x else default_value)"

text \<open>
  The 2D context of a canvas: the four attributes the program sets, and the drawing
  calls that have returned so far, oldest first, each with the attributes in force when
  it was made. What the browser paints for a call is not part of the program; whether
  the call returns is. Of the three drawing methods that the program uses, \<^verbatim>\<open>fillRect\<close>
  and \<^verbatim>\<open>fillText\<close> always return. \<^verbatim>\<open>drawImage\<close> follows the steps of the HTML Standard: it
  returns at once when one of its eight coordinates is \<^verbatim>\<open>NaN\<close> or infinite; otherwise it
  tests the image, and a canvas whose width or height is zero makes it throw an
  \<^verbatim>\<open>InvalidStateError\<close>.
\<close>

datatype dom_exception = InvalidStateError

type_synonym rect = "jsnum \<times> jsnum \<times> jsnum \<times> jsnum"

datatype draw_op =
    FillRect string jsnum rect
  | FillText string jsnum string string string jsnum jsnum
  | DrawImage jsnum nat rect rect

record context2d =
  fillStyle :: string
  globalAlpha :: jsnum
  font :: string
  textBaseline :: string
  drawn :: "draw_op list"

definition getContext2d :: context2d where
  "getContext2d =
     \<lparr>fillStyle = ''#000000'', globalAlpha = Fin 1, font = ''10px sans-serif'',
      textBaseline = ''alphabetic'', drawn = []\<rparr>"

definition fillRect :: "jsnum \<Rightarrow> jsnum \<Rightarrow> jsnum \<Rightarrow> jsnum \<Rightarrow> context2d \<Rightarrow> context2d" where
  "fillRect x y w h c = c\<lparr>drawn := drawn c @ [FillRect (fillStyle c) (globalAlpha c) (x, y, w, h)]\<rparr>"

definition fillText :: "string \<Rightarrow> jsnum \<Rightarrow> jsnum \<Rightarrow> context2d \<Rightarrow> context2d" where
  "fillText t x y c =
     c\<lparr>drawn := drawn c @ [FillText (fillStyle c) (globalAlpha c) (font c) (textBaseline c) t x y]\<rparr>"

fun rect_finite :: "rect \<Rightarrow> bool" where
  "rect_finite (x, y, w, h) = (is_finite x \<and> is_finite y \<and> is_finite w \<and> is_finite h)"

definition drawImage ::
  "nat \<Rightarrow> nat \<Rightarrow> nat \<Rightarrow> rect \<Rightarrow> rect \<Rightarrow> context2d \<Rightarrow> dom_exception + context2d" where
  "drawImage img img_width img_height src dst c =
     (if rect_finite src \<and> rect_finite dst \<and> (img_width = 0 \<or> img_height = 0)
      then Inl InvalidStateError
      else Inr (c\<lparr>drawn := drawn c @ [DrawImage (globalAlpha c) img src dst]\<rparr>))"

section \<open>StatsPanel\<close>

text \<open>
  A panel is the scope of one call of \<^verbatim>\<open>StatsPanel\<close> (its parameters, \<^verbatim>\<open>min\<close>, \<^verbatim>\<open>max\<close>,
  the constants, the canvas and its context) together with the two data properties of
  the object it returns: \<^verbatim>\<open>dom\<close> and the replaceable \<^verbatim>\<open>evaluateStatsColor\<close>.
\<close>

record panel =
  name :: string
  fg :: string
  bg :: string
  width_p :: jsnum
  height_p :: jsnum
  showMaximum :: bool
  min_v :: jsnum
  max_v :: jsnum
  PR :: jsnum
  WIDTH :: jsnum
  HEIGHT :: jsnum
  TEXT_X :: jsnum
  TEXT_Y :: jsnum
  GRAPH_X :: jsnum
  GRAPH_Y :: jsnum
  GRAPH_WIDTH :: jsnum
  GRAPH_HEIGHT :: jsnum
  canvas :: nat
  canvas_width :: nat
  canvas_height :: nat
  ctx :: context2d
  panel_dom :: nat
  evaluateStatsColor :: "jsnum \<Rightarrow> jsnum \<Rightarrow> string"

definition StatsPanel ::
  "runtime \<Rightarrow> string \<Rightarrow> string \<Rightarrow> string \<Rightarrow> jsnum option \<Rightarrow> jsnum option \<Rightarrow> bool option
     \<Rightarrow> document \<Rightarrow> panel \<times> document" where
  "StatsPanel rt nm fgc bgc width_arg height_arg showMaximum_arg d =
    (let width = dflt (Fin 80) width_arg;
         height = dflt (Fin 48) height_arg;
         showMax = dflt False showMaximum_arg;
         pr = Math_round (js_or (devicePixelRatio rt) (Fin 1));
         w = js_mul (fl rt) width pr;
         h = js_mul (fl rt) height pr;
         text_x = js_mul (fl rt) (Fin 3) pr;
         text_y = js_mul (fl rt) (js_mul (fl rt) (Fin 2) (js_div (fl rt) height (Fin 48))) pr;
         graph_x = js_mul (fl rt) (Fin 3) pr;
         graph_y = js_mul (fl rt) (Fin 15) pr;
         graph_width = js_mul (fl rt) (js_sub (fl rt) width (Fin 6)) pr;
         graph_height =
           js_mul (fl rt)
             (js_mul (fl rt) (js_sub (fl rt) height (Fin 18)) (js_div (fl rt) height (Fin 48))) pr;
         (cv, d1) = createElement ''canvas'' d;
         d2 = set_cssText cv
                (''width:'' @ js_toString (numstr rt) width @ ''px;height:''
                   @ js_toString (numstr rt) height @ ''px'') d1;
         c0 = getContext2d
                \<lparr>font := ''bold ''
                   @ js_toString (numstr rt)
                       (js_mul (fl rt) (js_mul (fl rt) (Fin 9) pr) (js_div (fl rt) height (Fin 48)))
                   @ ''px Helvetica,Arial,sans-serif'',
                 textBaseline := ''top''\<rparr>;
         c1 = fillRect (Fin 0) (Fin 0) w h (c0\<lparr>fillStyle := bgc\<rparr>);
         c2 = fillText nm text_x text_y (c1\<lparr>fillStyle := fgc\<rparr>);
         c3 = fillRect graph_x graph_y graph_width graph_height c2;
         c4 = fillRect graph_x graph_y graph_width graph_height
                (c3\<lparr>fillStyle := bgc, globalAlpha := Fin (9 / 10)\<rparr>)
     in (\<lparr>name = nm, fg = fgc, bg = bgc, width_p = width, height_p = height,
          showMaximum = showMax, min_v = PosInf, max_v = Fin 0, PR = pr,
          WIDTH = w, HEIGHT = h, TEXT_X = text_x, TEXT_Y = text_y,
          GRAPH_X = graph_x, GRAPH_Y = graph_y,
          GRAPH_WIDTH = graph_width, GRAPH_HEIGHT = graph_height,
          canvas = cv, canvas_width = reflect_unsigned_long 300 w,
          canvas_height = reflect_unsigned_long 150 h, ctx = c4,
          panel_dom = cv, evaluateStatsColor = (\<lambda>value maxValue. fgc)\<rparr>, d2))"

text \<open>
  \<^verbatim>\<open>update(value, maxValue)\<close>, called as a method of the panel \<open>p\<close>: the text of the
  header, then the statements of the body in their order. The result is how the call
  ends, \<open>Inr ()\<close> for a return and \<open>Inl\<close> for the exception that nothing in \<^verbatim>\<open>update\<close>
  catches, and the panel as the call leaves it: the statements before the exception
  have had their effect.
\<close>

definition header_text :: "runtime \<Rightarrow> panel \<Rightarrow> jsnum \<Rightarrow> jsnum \<Rightarrow> jsnum \<Rightarrow> jsnum \<Rightarrow> string" where
  "header_text rt p value maxValue mn mx =
     (if showMaximum p
      then js_toString (numstr rt) (Math_round value) @ name p @ '' (''
             @ js_toString (numstr rt) (Math_round mn) @ ''-''
             @ js_toString (numstr rt) (Math_round mx) @ '')/''
             @ js_toString (numstr rt) maxValue
      else js_toString (numstr rt) (Math_round value) @ name p @ '' (''
             @ js_toString (numstr rt) (Math_round mn) @ ''-''
             @ js_toString (numstr rt) (Math_round mx) @ '')'')"

definition update ::
  "runtime \<Rightarrow> jsnum \<Rightarrow> jsnum \<Rightarrow> panel \<Rightarrow> (dom_exception + unit) \<times> panel" where
  "update rt value maxValue p =
    (let mn = Math_min (min_v p) value;
         mx = Math_max (max_v p) value;
         c1 = fillRect (Fin 0) (Fin 0) (WIDTH p) (GRAPH_Y p)
                ((ctx p)\<lparr>fillStyle := bg p, globalAlpha := Fin 1\<rparr>);
         c2 = fillText (header_text rt p value maxValue mn mx) (TEXT_X p) (TEXT_Y p)
                (c1\<lparr>fillStyle := evaluateStatsColor p value maxValue\<rparr>)
     in case drawImage (canvas p) (canvas_width p) (canvas_height p)
               (js_add (fl rt) (GRAPH_X p) (PR p), GRAPH_Y p,
                js_sub (fl rt) (GRAPH_WIDTH p) (PR p), GRAPH_HEIGHT p)
               (GRAPH_X p, GRAPH_Y p, js_sub (fl rt) (GRAPH_WIDTH p) (PR p), GRAPH_HEIGHT p)
               c2 of
          Inl e \<Rightarrow> (Inl e, p\<lparr>min_v := mn, max_v := mx, ctx := c2\<rparr>)
        | Inr c3 \<Rightarrow>
            (let c4 = fillRect
                        (js_sub (fl rt) (js_add (fl rt) (GRAPH_X p) (GRAPH_WIDTH p)) (PR p))
                        (GRAPH_Y p) (PR p) (GRAPH_HEIGHT p) c3;
                 c5 = fillRect
                        (js_sub (fl rt) (js_add (fl rt) (GRAPH_X p) (GRAPH_WIDTH p)) (PR p))
                        (GRAPH_Y p) (PR p)
                        (Math_round
                           (js_mul (fl rt)
                              (js_sub (fl rt) (Fin 1) (js_div (fl rt) value maxValue))
                              (GRAPH_HEIGHT p)))
                        (c4\<lparr>fillStyle := bg p, globalAlpha := Fin (9 / 10)\<rparr>)
             in (Inr (), p\<lparr>min_v := mn, max_v := mx, ctx := c5\<rparr>)))"

section \<open>Stats\<close>

text \<open>
  The scope of one call of \<^verbatim>\<open>Stats\<close> holds the container and the variable
  \<^verbatim>\<open>currentPanelIndex\<close>; \<^verbatim>\<open>addPanel\<close> and \<^verbatim>\<open>showPanel\<close> are closures over it. The
  object that \<^verbatim>\<open>Stats\<close> returns is a separate value: its property
  \<^verbatim>\<open>currentPanelIndex\<close> is initialised from the variable when the object is built.
\<close>

record stats_scope =
  container :: nat
  var_currentPanelIndex :: jsnum

record stats =
  REVISION :: nat
  currentPanelIndex :: jsnum
  stats_dom :: nat
  fpsPanel :: panel
  msPanel :: panel
  memPanel :: "panel option"

definition addPanel :: "panel \<Rightarrow> stats_scope \<times> document \<Rightarrow> panel \<times> stats_scope \<times> document" where
  "addPanel p s = (p, fst s, appendChild (container (fst s)) (panel_dom p) (snd s))"

text \<open>The \<^verbatim>\<open>for\<close> loop of \<^verbatim>\<open>showPanel\<close>, from the index \<open>i\<close> on.\<close>

function showPanel_loop :: "nat \<Rightarrow> jsnum \<Rightarrow> nat \<Rightarrow> document \<Rightarrow> document" where
  "showPanel_loop c id_arg i d =
     (if i < length (children (elems d c))
      then showPanel_loop c id_arg (i + 1)
             (set_display (children (elems d c) ! i)
                (if Fin (of_nat i) = id_arg then ''block'' else ''none'') d)
      else d)"
  by pat_completeness auto
termination
  by (relation "measure (\<lambda>(c, id_arg, i, d). length (children (elems d c)) - i)")
     (auto simp: set_display_def)

declare showPanel_loop.simps [simp del]

definition showPanel :: "jsnum \<Rightarrow> stats_scope \<times> document \<Rightarrow> stats_scope \<times> document" where
  "showPanel id_arg s =
     ((fst s)\<lparr>var_currentPanelIndex := id_arg\<rparr>, showPanel_loop (container (fst s)) id_arg 0 (snd s))"

definition has_memory :: "runtime \<Rightarrow> bool" where
  "has_memory rt = (case window_performance rt of None \<Rightarrow> False | Some pf \<Rightarrow> memory pf \<noteq> None)"

definition Stats ::
  "runtime \<Rightarrow> jsnum option \<Rightarrow> jsnum option \<Rightarrow> bool option \<Rightarrow> document
     \<Rightarrow> stats \<times> stats_scope \<times> document" where
  "Stats rt width_arg height_arg showMaximum_arg d =
    (let width = dflt (Fin 80) width_arg;
         height = dflt (Fin 48) height_arg;
         showMax = dflt False showMaximum_arg;
         (cont, d1) = createElement ''div'' d;
         d2 = set_cssText cont ''opacity:0.71;z-index:10000'' d1;
         s0 = \<lparr>container = cont, var_currentPanelIndex = Fin 0\<rparr>;
         (p1, d3) = StatsPanel rt ''FPS'' ''#0ff'' ''#002'' (Some width) (Some height) (Some showMax) d2;
         (fps, s1) = addPanel p1 (s0, d3);
         (p2, d4) = StatsPanel rt ''MS'' ''#0f0'' ''#020'' (Some width) (Some height) (Some showMax) (snd s1);
         (ms, s2) = addPanel p2 (fst s1, d4);
         (mem, s3) =
           (if has_memory rt
            then (let (p3, d5) = StatsPanel rt ''MB'' ''#f08'' ''#201'' (Some width) (Some height)
                                   (Some showMax) (snd s2);
                      (mb, s) = addPanel p3 (fst s2, d5)
                  in (Some mb, s))
            else (None, s2));
         s4 = showPanel (Fin 0) s3
     in (\<lparr>REVISION = 17, currentPanelIndex = var_currentPanelIndex (fst s4),
          stats_dom = container (fst s4), fpsPanel = fps, msPanel = ms, memPanel = mem\<rparr>,
         s4))"

text \<open>The panels registered in an overlay are the children of its container.\<close>

definition registered :: "stats_scope \<times> document \<Rightarrow> nat list" where
  "registered s = children (elems (snd s) (container (fst s)))"

definition display_of :: "stats_scope \<times> document \<Rightarrow> nat \<Rightarrow> string" where
  "display_of s e = display (style (elems (snd s) e))"

text \<open>
  A runtime for the examples: a display of pixel ratio 1 without the memory extension.
  Its arithmetic is exact, which is what IEEE 754 gives on the small integers and the
  halves and quarters of the examples; \<open>numstr\<close> is not reached in them.
\<close>

definition rt0 :: runtime where
  "rt0 = \<lparr>fl = Fin, numstr = (\<lambda>q. ''?''), devicePixelRatio = Some (Fin 1),
          window_performance = Some (Performance None)\<rparr>"

definition doc0 :: document where
  "doc0 = \<lparr>nextId = 0, elems = (\<lambda>k. new_element [])\<rparr>"

text \<open>
  A sequence of calls of \<^verbatim>\<open>update\<close> on one panel, each given as (value, maxValue) and
  made on the panel as the call before it left it, whether that call returned or threw.
\<close>

fun updates :: "runtime \<Rightarrow> (jsnum \<times> jsnum) list \<Rightarrow> panel \<Rightarrow> panel" where
  "updates rt [] p = p"
| "updates rt (c # cs) p = updates rt cs (snd (update rt (fst c) (snd c) p))"

text \<open>The drawing calls that one call of \<^verbatim>\<open>update\<close> adds to the context.\<close>

definition requests :: "runtime \<Rightarrow> jsnum \<Rightarrow> jsnum \<Rightarrow> panel \<Rightarrow> draw_op list" where
  "requests rt value maxValue p =
     drop (length (drawn (ctx p))) (drawn (ctx (snd (update rt value maxValue p))))"

text \<open>
  The height of the capping rectangle as the specification words it:
  \<^verbatim>\<open>round((1 - value/maxValue) * graphHeight)\<close>.
\<close>

definition cap_height :: "runtime \<Rightarrow> jsnum \<Rightarrow> jsnum \<Rightarrow> jsnum \<Rightarrow> jsnum" where
  "cap_height rt value maxValue graphHeight =
     Math_round (js_mul (fl rt) (js_sub (fl rt) (Fin 1) (js_div (fl rt) value maxValue)) graphHeight)"


text \<open>The invariant of the two variables while no \<^verbatim>\<open>NaN\<close> is passed in.\<close>

definition tracked_ok :: "panel \<Rightarrow> bool" where
  "tracked_ok p = (min_v p \<noteq> NaN \<and> js_le (Fin 0) (max_v p))"

section \<open>Evaluation of floors and of the default panel\<close>

lemma floor_rat_numeral: "\<lfloor>(numeral a :: rat) / numeral b\<rfloor> = numeral a div numeral b"
  using floor_divide_of_int_eq [of "numeral a" "numeral b", where ?'a = rat] by simp

lemma floor_rat_neg_numeral: "\<lfloor>- (numeral a :: rat) / numeral b\<rfloor> = - numeral a div numeral b"
  using floor_divide_of_int_eq [of "- numeral a" "numeral b", where ?'a = rat] by simp

lemma floor_rat_one_div: "\<lfloor>1 / (numeral b :: rat)\<rfloor> = 1 div numeral b"
  using floor_divide_of_int_eq [of 1 "numeral b", where ?'a = rat] by simp

lemma floor_rat_neg_div: "\<lfloor>- ((numeral a :: rat) / numeral b)\<rfloor> = - numeral a div numeral b"
  using floor_divide_of_int_eq [of "- numeral a" "numeral b", where ?'a = rat] by simp

lemma floor_rat_neg_one_div: "\<lfloor>- (1 / (numeral b :: rat))\<rfloor> = - 1 div numeral b"
  using floor_divide_of_int_eq [of "- 1" "numeral b", where ?'a = rat] by simp

lemmas floor_rat =
  floor_rat_numeral floor_rat_neg_numeral floor_rat_one_div floor_rat_neg_div floor_rat_neg_one_div

lemma show_nat_examples:
  "show_nat 9 = ''9''" "show_nat 10 = ''10''" "show_nat 30 = ''30''" "show_nat 48 = ''48''"
  "show_nat 50 = ''50''" "show_nat 60 = ''60''" "show_nat 80 = ''80''"
  by code_simp+

text \<open>The panel built with the default size at pixel ratio 1: 80 by 48, graph 74 by 30 at (3, 15).\<close>

lemma default_panel:
  fixes nm f b sm
  defines "P \<equiv> fst (StatsPanel rt0 nm f b None None sm doc0)"
  shows "name P = nm" "fg P = f" "bg P = b" "showMaximum P = dflt False sm"
    "min_v P = PosInf" "max_v P = Fin 0" "PR P = Fin 1"
    "WIDTH P = Fin 80" "HEIGHT P = Fin 48" "TEXT_X P = Fin 3" "TEXT_Y P = Fin 2"
    "GRAPH_X P = Fin 3" "GRAPH_Y P = Fin 15" "GRAPH_WIDTH P = Fin 74" "GRAPH_HEIGHT P = Fin 30"
    "canvas P = 0" "panel_dom P = 0" "evaluateStatsColor P = (\<lambda>value maxValue. f)"
    "font (ctx P) = ''bold 9px Helvetica,Arial,sans-serif''" "textBaseline (ctx P) = ''top''"
    "canvas_width P = 80" "canvas_height P = 48"
  by (simp_all add: P_def StatsPanel_def Let_def rt0_def doc0_def createElement_def js_sub_def
        fillRect_def fillText_def floor_rat show_int_def show_nat_examples
        reflect_unsigned_long_def ToUint32_def split: prod.splits)

section \<open>What a panel is built with, and what \<^verbatim>\<open>update\<close> leaves alone\<close>

lemma StatsPanel_fields:
  "name (fst (StatsPanel rt nm f b w h sm d)) = nm"
  "fg (fst (StatsPanel rt nm f b w h sm d)) = f"
  "bg (fst (StatsPanel rt nm f b w h sm d)) = b"
  "showMaximum (fst (StatsPanel rt nm f b w h sm d)) = dflt False sm"
  "min_v (fst (StatsPanel rt nm f b w h sm d)) = PosInf"
  "max_v (fst (StatsPanel rt nm f b w h sm d)) = Fin 0"
  "evaluateStatsColor (fst (StatsPanel rt nm f b w h sm d)) = (\<lambda>value maxValue. f)"
  "textBaseline (ctx (fst (StatsPanel rt nm f b w h sm d))) = ''top''"
  "panel_dom (fst (StatsPanel rt nm f b w h sm d)) = nextId d"
  "canvas (fst (StatsPanel rt nm f b w h sm d)) = nextId d"
  "PR (fst (StatsPanel rt nm f b w h sm d)) = Math_round (js_or (devicePixelRatio rt) (Fin 1))"
  "canvas_width (fst (StatsPanel rt nm f b w h sm d)) =
     reflect_unsigned_long 300 (WIDTH (fst (StatsPanel rt nm f b w h sm d)))"
  "canvas_height (fst (StatsPanel rt nm f b w h sm d)) =
     reflect_unsigned_long 150 (HEIGHT (fst (StatsPanel rt nm f b w h sm d)))"
  by (simp_all add: StatsPanel_def Let_def createElement_def fillRect_def fillText_def
        split: prod.splits)

lemma StatsPanel_geometry:
  fixes rt nm f b w h sm d
  defines "P \<equiv> fst (StatsPanel rt nm f b w h sm d)"
  shows "WIDTH P = js_mul (fl rt) (dflt (Fin 80) w) (PR P)"
    "HEIGHT P = js_mul (fl rt) (dflt (Fin 48) h) (PR P)"
    "TEXT_X P = js_mul (fl rt) (Fin 3) (PR P)"
    "TEXT_Y P =
       js_mul (fl rt) (js_mul (fl rt) (Fin 2) (js_div (fl rt) (dflt (Fin 48) h) (Fin 48))) (PR P)"
    "GRAPH_X P = js_mul (fl rt) (Fin 3) (PR P)"
    "GRAPH_Y P = js_mul (fl rt) (Fin 15) (PR P)"
    "GRAPH_WIDTH P = js_mul (fl rt) (js_sub (fl rt) (dflt (Fin 80) w) (Fin 6)) (PR P)"
    "GRAPH_HEIGHT P =
       js_mul (fl rt)
         (js_mul (fl rt) (js_sub (fl rt) (dflt (Fin 48) h) (Fin 18))
            (js_div (fl rt) (dflt (Fin 48) h) (Fin 48))) (PR P)"
  by (simp_all add: P_def StatsPanel_def Let_def split: prod.splits)


text \<open>
  A call of \<^verbatim>\<open>update\<close> ends with the exception exactly when the canvas has a zero width
  or height and the eight coordinates given to \<^verbatim>\<open>drawImage\<close> are finite.
\<close>

lemma update_throws_iff:
  "fst (update rt value maxValue p) = Inl InvalidStateError \<longleftrightarrow>
     rect_finite (js_add (fl rt) (GRAPH_X p) (PR p), GRAPH_Y p,
                  js_sub (fl rt) (GRAPH_WIDTH p) (PR p), GRAPH_HEIGHT p)
     \<and> rect_finite (GRAPH_X p, GRAPH_Y p, js_sub (fl rt) (GRAPH_WIDTH p) (PR p), GRAPH_HEIGHT p)
     \<and> (canvas_width p = 0 \<or> canvas_height p = 0)"
  by (simp add: update_def Let_def drawImage_def)

lemma update_returns:
  "0 < canvas_width p \<Longrightarrow> 0 < canvas_height p \<Longrightarrow> fst (update rt value maxValue p) = Inr ()"
  by (simp add: update_def Let_def drawImage_def)


lemma requests_throws:
  "fst (update rt value maxValue p) = Inl e \<Longrightarrow>
   requests rt value maxValue p =
    [FillRect (bg p) (Fin 1) (Fin 0, Fin 0, WIDTH p, GRAPH_Y p),
     FillText (evaluateStatsColor p value maxValue) (Fin 1) (font (ctx p)) (textBaseline (ctx p))
       (header_text rt p value maxValue (Math_min (min_v p) value) (Math_max (max_v p) value))
       (TEXT_X p) (TEXT_Y p)]"
  by (simp add: requests_def update_def Let_def fillRect_def fillText_def drawImage_def
        split: sum.splits if_splits)

lemma requests_update:
  "fst (update rt value maxValue p) = Inr () \<Longrightarrow>
   requests rt value maxValue p =
    [FillRect (bg p) (Fin 1) (Fin 0, Fin 0, WIDTH p, GRAPH_Y p),
     FillText (evaluateStatsColor p value maxValue) (Fin 1) (font (ctx p)) (textBaseline (ctx p))
       (header_text rt p value maxValue (Math_min (min_v p) value) (Math_max (max_v p) value))
       (TEXT_X p) (TEXT_Y p),
     DrawImage (Fin 1) (canvas p)
       (js_add (fl rt) (GRAPH_X p) (PR p), GRAPH_Y p,
        js_sub (fl rt) (GRAPH_WIDTH p) (PR p), GRAPH_HEIGHT p)
       (GRAPH_X p, GRAPH_Y p, js_sub (fl rt) (GRAPH_WIDTH p) (PR p), GRAPH_HEIGHT p),
     FillRect (evaluateStatsColor p value maxValue) (Fin 1)
       (js_sub (fl rt) (js_add (fl rt) (GRAPH_X p) (GRAPH_WIDTH p)) (PR p), GRAPH_Y p,
        PR p, GRAPH_HEIGHT p),
     FillRect (bg p) (Fin (9 / 10))
       (js_sub (fl rt) (js_add (fl rt) (GRAPH_X p) (GRAPH_WIDTH p)) (PR p), GRAPH_Y p, PR p,
        Math_round
          (js_mul (fl rt) (js_sub (fl rt) (Fin 1) (js_div (fl rt) value maxValue))
             (GRAPH_HEIGHT p)))]"
  by (simp add: requests_def update_def Let_def fillRect_def fillText_def drawImage_def
        split: sum.splits if_splits)


section \<open>The running minimum and maximum\<close>

lemma update_min_v: "min_v (snd (update rt v m p)) = Math_min (min_v p) v"
  by (simp add: update_def Let_def split: sum.splits)

lemma update_max_v: "max_v (snd (update rt v m p)) = Math_max (max_v p) v"
  by (simp add: update_def Let_def split: sum.splits)

lemma js_le_refl: "a \<noteq> NaN \<Longrightarrow> js_le a a"
  by (cases a) simp_all

lemma js_le_total: "a \<noteq> NaN \<Longrightarrow> b \<noteq> NaN \<Longrightarrow> \<not> js_le a b \<Longrightarrow> js_le b a"
  by (cases a; cases b) simp_all

lemma js_le_trans: "js_le a b \<Longrightarrow> js_le b c \<Longrightarrow> js_le a c"
  by (cases a; cases b; cases c) simp_all

lemma js_le_not_NaN: "js_le a b \<Longrightarrow> a \<noteq> NaN \<and> b \<noteq> NaN"
  by (cases a; cases b) simp_all

lemma Math_min_le:
  "a \<noteq> NaN \<Longrightarrow> b \<noteq> NaN \<Longrightarrow>
     js_le (Math_min a b) a \<and> js_le (Math_min a b) b \<and> Math_min a b \<noteq> NaN"
  by (auto simp: Math_min_def js_le_refl dest: js_le_total)

lemma Math_max_ge:
  "a \<noteq> NaN \<Longrightarrow> b \<noteq> NaN \<Longrightarrow>
     js_le a (Math_max a b) \<and> js_le b (Math_max a b) \<and> Math_max a b \<noteq> NaN"
  by (auto simp: Math_max_def js_le_refl dest: js_le_total)

lemma tracked_ok_StatsPanel: "tracked_ok (fst (StatsPanel rt nm f b w h sm d))"
  by (simp add: StatsPanel_def Let_def tracked_ok_def split: prod.splits)

lemma tracked_ok_policy: "tracked_ok (p\<lparr>evaluateStatsColor := pol\<rparr>) = tracked_ok p"
  by (simp add: tracked_ok_def)

lemma tracked_ok_update:
  "tracked_ok p \<Longrightarrow> v \<noteq> NaN \<Longrightarrow> tracked_ok (snd (update rt v m p))"
  unfolding tracked_ok_def update_min_v update_max_v
  using Math_min_le [of "min_v p" v] Math_max_ge [of "max_v p" v]
    js_le_not_NaN [of "Fin 0" "max_v p"]
    js_le_trans [of "Fin 0" "max_v p" "Math_max (max_v p) v"]
  by blast

lemma tracked_ok_updates:
  "tracked_ok p \<Longrightarrow> list_all (\<lambda>c. fst c \<noteq> NaN) cs \<Longrightarrow> tracked_ok (updates rt cs p)"
  by (induction cs arbitrary: p) (simp_all add: tracked_ok_update)

text \<open>
  Claim C2, as stated, fails: \<^verbatim>\<open>Math.min\<close> and \<^verbatim>\<open>Math.max\<close> return \<^verbatim>\<open>NaN\<close> as soon as
  an argument is \<^verbatim>\<open>NaN\<close>, and \<^verbatim>\<open>update\<close> does not filter its argument. After
  \<^verbatim>\<open>update(NaN, 60)\<close> and then \<^verbatim>\<open>update(10, 60)\<close> on a new panel, the tracked minimum is
  not \<^verbatim>\<open><= 10\<close>, the tracked maximum is not \<^verbatim>\<open>>= 10\<close> and not \<^verbatim>\<open>>= 0\<close>.
\<close>

theorem tracked_bounds_NaN_counterexample:
  "\<not> js_le (min_v (updates rt0 [(NaN, Fin 60), (Fin 10, Fin 60)]
                      (fst (StatsPanel rt0 ''FPS'' ''#0ff'' ''#002'' None None None doc0)))) (Fin 10)
   \<and> \<not> js_le (Fin 10) (max_v (updates rt0 [(NaN, Fin 60), (Fin 10, Fin 60)]
                      (fst (StatsPanel rt0 ''FPS'' ''#0ff'' ''#002'' None None None doc0))))
   \<and> \<not> js_le (Fin 0) (max_v (updates rt0 [(NaN, Fin 60), (Fin 10, Fin 60)]
                      (fst (StatsPanel rt0 ''FPS'' ''#0ff'' ''#002'' None None None doc0))))"
  by (simp add: update_min_v update_max_v default_panel Math_min_def Math_max_def)

text \<open>
  Claim C2, amended: for every panel, whatever colour policy it has been given, and every
  finite sequence of calls \<^verbatim>\<open>update(v, m)\<close> none of whose values is \<^verbatim>\<open>NaN\<close>, after each
  call the tracked minimum is \<^verbatim>\<open><= v\<close> and the tracked maximum is \<^verbatim>\<open>>= v\<close>, the minimum
  has not increased and the maximum has not decreased over the call, and the maximum is
  \<^verbatim>\<open>>= 0\<close>. Here \<open>p\<close> is the panel after any such sequence and \<open>p'\<close> the panel after
  one more call, whether the calls return or throw.
\<close>

theorem tracked_bounds:
  assumes "list_all (\<lambda>c. fst c \<noteq> NaN) calls" and "v \<noteq> NaN"
    and "p = updates rt calls
               ((fst (StatsPanel rt nm f b w h sm d))\<lparr>evaluateStatsColor := pol\<rparr>)"
    and "p' = snd (update rt v m p)"
  shows "js_le (min_v p') v \<and> js_le v (max_v p') \<and> js_le (min_v p') (min_v p)
     \<and> js_le (max_v p) (max_v p') \<and> js_le (Fin 0) (max_v p')"
proof -
  have ok: "tracked_ok p"
    using assms(1,3) by (simp add: tracked_ok_updates tracked_ok_policy tracked_ok_StatsPanel)
  then have a: "min_v p \<noteq> NaN" and b: "js_le (Fin 0) (max_v p)"
    by (simp_all add: tracked_ok_def)
  from b have c: "max_v p \<noteq> NaN"
    using js_le_not_NaN by blast
  have ok': "tracked_ok p'"
    using ok assms(2,4) by (simp add: tracked_ok_update)
  show ?thesis
    using Math_min_le [OF a assms(2)] Math_max_ge [OF c assms(2)] ok'
    by (simp add: assms(4) update_min_v update_max_v tracked_ok_def)
qed

theorem tracked_bounds_witness:
  "list_all (\<lambda>c. fst c \<noteq> NaN) [(Fin 10, Fin 60)] \<and> Fin 50 \<noteq> NaN
   \<and> js_le (min_v (snd (update rt0 (Fin 50) (Fin 60) (updates rt0 [(Fin 10, Fin 60)]
        ((fst (StatsPanel rt0 ''FPS'' ''#0ff'' ''#002'' None None None doc0))
           \<lparr>evaluateStatsColor := (\<lambda>value maxValue. ''#f00'')\<rparr>))))) (Fin 50)
   \<and> js_le (Fin 50) (max_v (snd (update rt0 (Fin 50) (Fin 60) (updates rt0 [(Fin 10, Fin 60)]
        ((fst (StatsPanel rt0 ''FPS'' ''#0ff'' ''#002'' None None None doc0))
           \<lparr>evaluateStatsColor := (\<lambda>value maxValue. ''#f00'')\<rparr>)))))
   \<and> js_le (Fin 0) (max_v (snd (update rt0 (Fin 50) (Fin 60) (updates rt0 [(Fin 10, Fin 60)]
        ((fst (StatsPanel rt0 ''FPS'' ''#0ff'' ''#002'' None None None doc0))
           \<lparr>evaluateStatsColor := (\<lambda>value maxValue. ''#f00'')\<rparr>)))))"
  using tracked_bounds [where calls = "[(Fin 10, Fin 60)]" and v = "Fin 50" and rt = rt0
      and nm = "''FPS''" and f = "''#0ff''" and b = "''#002''" and w = None and h = None
      and sm = None and d = doc0 and pol = "\<lambda>value maxValue. ''#f00''" and m = "Fin 60",
      OF _ _ refl refl]
  by simp

section \<open>The drawing requests of \<^verbatim>\<open>update\<close>\<close>

text \<open>The size that a canvas takes for some assigned Numbers.\<close>

lemma reflect_unsigned_long_examples:
  "reflect_unsigned_long 300 (Fin 80) = 80"
  "reflect_unsigned_long 300 (Fin 0) = 0"
  "reflect_unsigned_long 300 (Fin (1 / 2)) = 0"
  "reflect_unsigned_long 300 (Fin (- 7)) = 300"
  "reflect_unsigned_long 300 NaN = 0"
  "reflect_unsigned_long 150 PosInf = 0"
  by (simp_all add: reflect_unsigned_long_def ToUint32_def floor_rat)

text \<open>
  Two panels with an empty canvas: the default size at the pixel ratio 0.25, where the
  scale factor is 0, and the width 0 at the pixel ratio 1.
\<close>

lemma quarter_panel:
  fixes nm f b sm
  defines "P \<equiv> fst (StatsPanel (rt0\<lparr>devicePixelRatio := Some (Fin (1 / 4))\<rparr>) nm f b
                       None None sm doc0)"
  shows "name P = nm" "bg P = b" "showMaximum P = dflt False sm"
    "min_v P = PosInf" "max_v P = Fin 0" "PR P = Fin 0"
    "WIDTH P = Fin 0" "HEIGHT P = Fin 0" "TEXT_X P = Fin 0" "TEXT_Y P = Fin 0"
    "GRAPH_X P = Fin 0" "GRAPH_Y P = Fin 0" "GRAPH_WIDTH P = Fin 0" "GRAPH_HEIGHT P = Fin 0"
    "evaluateStatsColor P = (\<lambda>value maxValue. f)"
    "font (ctx P) = ''bold 0px Helvetica,Arial,sans-serif''" "textBaseline (ctx P) = ''top''"
    "canvas_width P = 0" "canvas_height P = 0"
  by (simp_all add: P_def StatsPanel_def Let_def rt0_def doc0_def createElement_def js_sub_def
        fillRect_def fillText_def floor_rat show_int_def show_nat.simps [of 0] digit_char_def
        reflect_unsigned_long_def ToUint32_def split: prod.splits)

lemma zero_width_panel:
  fixes nm f b sm
  defines "P \<equiv> fst (StatsPanel rt0 nm f b (Some (Fin 0)) None sm doc0)"
  shows "name P = nm" "bg P = b" "showMaximum P = dflt False sm"
    "min_v P = PosInf" "max_v P = Fin 0" "PR P = Fin 1"
    "WIDTH P = Fin 0" "HEIGHT P = Fin 48" "TEXT_X P = Fin 3" "TEXT_Y P = Fin 2"
    "GRAPH_X P = Fin 3" "GRAPH_Y P = Fin 15" "GRAPH_WIDTH P = Fin (- 6)"
    "GRAPH_HEIGHT P = Fin 30"
    "evaluateStatsColor P = (\<lambda>value maxValue. f)"
    "font (ctx P) = ''bold 9px Helvetica,Arial,sans-serif''" "textBaseline (ctx P) = ''top''"
    "canvas_width P = 0" "canvas_height P = 48"
  by (simp_all add: P_def StatsPanel_def Let_def rt0_def doc0_def createElement_def js_sub_def
        fillRect_def fillText_def floor_rat show_int_def show_nat_examples
        reflect_unsigned_long_def ToUint32_def split: prod.splits)

text \<open>
  Claim C1, as stated, fails: it holds of the calls that return, and on a panel whose
  canvas is empty \<^verbatim>\<open>drawImage\<close> throws, so that \<^verbatim>\<open>update\<close> ends there and the column is
  never filled. At the pixel ratio 0.25 the panel of the default size has a canvas of 0
  by 0; \<^verbatim>\<open>update(30, 60)\<close> ends with \<^verbatim>\<open>InvalidStateError\<close> after the header strip and the
  text, its only two drawing calls.
\<close>

theorem scroll_and_column_empty_canvas_counterexample:
  "canvas_width (fst (StatsPanel (rt0\<lparr>devicePixelRatio := Some (Fin (1 / 4))\<rparr>)
                        ''FPS'' ''#0ff'' ''#002'' None None None doc0)) = 0
   \<and> fst (update (rt0\<lparr>devicePixelRatio := Some (Fin (1 / 4))\<rparr>) (Fin 30) (Fin 60)
          (fst (StatsPanel (rt0\<lparr>devicePixelRatio := Some (Fin (1 / 4))\<rparr>)
                  ''FPS'' ''#0ff'' ''#002'' None None None doc0))) = Inl InvalidStateError
   \<and> requests (rt0\<lparr>devicePixelRatio := Some (Fin (1 / 4))\<rparr>) (Fin 30) (Fin 60)
          (fst (StatsPanel (rt0\<lparr>devicePixelRatio := Some (Fin (1 / 4))\<rparr>)
                  ''FPS'' ''#0ff'' ''#002'' None None None doc0)) =
       [FillRect ''#002'' (Fin 1) (Fin 0, Fin 0, Fin 0, Fin 0),
        FillText ''#0ff'' (Fin 1) ''bold 0px Helvetica,Arial,sans-serif'' ''top''
          ''30FPS (30-30)'' (Fin 0) (Fin 0)]"
proof -
  let ?rt = "rt0\<lparr>devicePixelRatio := Some (Fin (1 / 4))\<rparr>"
  let ?P = "fst (StatsPanel ?rt ''FPS'' ''#0ff'' ''#002'' None None None doc0)"
  have t: "fst (update ?rt (Fin 30) (Fin 60) ?P) = Inl InvalidStateError"
    by (simp add: update_throws_iff quarter_panel) (simp add: rt0_def js_sub_def)
  from requests_throws [OF t] show ?thesis
    by (simp add: t quarter_panel header_text_def Math_min_def Math_max_def show_int_def
          show_nat_examples floor_rat)
qed

text \<open>
  Claim C1, amended: every call \<^verbatim>\<open>update(value, maxValue)\<close> on a panel whose canvas has a
  width and a height other than zero returns, and in every call that returns the third
  drawing call copies, at full opacity and from the panel's own canvas, the rectangle at
  (GRAPH_X + PR, GRAPH_Y) of width GRAPH_WIDTH - PR and height GRAPH_HEIGHT to the
  rectangle of the same size at (GRAPH_X, GRAPH_Y), and the fourth, made right after it,
  fills the rectangle at (GRAPH_X + GRAPH_WIDTH - PR, GRAPH_Y) of width PR and height
  GRAPH_HEIGHT with the colour that the colour policy returns for (value, maxValue), at
  opacity 1.
\<close>

theorem scroll_and_column:
  "(0 < canvas_width p \<and> 0 < canvas_height p \<longrightarrow> fst (update rt value maxValue p) = Inr ())
   \<and> (fst (update rt value maxValue p) = Inr () \<longrightarrow>
      requests rt value maxValue p ! 2 =
        DrawImage (Fin 1) (canvas p)
          (js_add (fl rt) (GRAPH_X p) (PR p), GRAPH_Y p,
           js_sub (fl rt) (GRAPH_WIDTH p) (PR p), GRAPH_HEIGHT p)
          (GRAPH_X p, GRAPH_Y p, js_sub (fl rt) (GRAPH_WIDTH p) (PR p), GRAPH_HEIGHT p)
      \<and> requests rt value maxValue p ! 3 =
        FillRect (evaluateStatsColor p value maxValue) (Fin 1)
          (js_sub (fl rt) (js_add (fl rt) (GRAPH_X p) (GRAPH_WIDTH p)) (PR p), GRAPH_Y p,
           PR p, GRAPH_HEIGHT p))"
  by (simp add: requests_update update_returns)

theorem scroll_and_column_witness:
  "0 < canvas_width (fst (StatsPanel rt0 ''FPS'' ''#0ff'' ''#002'' None None None doc0))
   \<and> 0 < canvas_height (fst (StatsPanel rt0 ''FPS'' ''#0ff'' ''#002'' None None None doc0))
   \<and> fst (update rt0 (Fin 30) (Fin 60)
            (fst (StatsPanel rt0 ''FPS'' ''#0ff'' ''#002'' None None None doc0))) = Inr ()
   \<and> requests rt0 (Fin 30) (Fin 60)
        (fst (StatsPanel rt0 ''FPS'' ''#0ff'' ''#002'' None None None doc0)) ! 2 =
     DrawImage (Fin 1) 0 (Fin 4, Fin 15, Fin 73, Fin 30) (Fin 3, Fin 15, Fin 73, Fin 30)
   \<and> requests rt0 (Fin 30) (Fin 60)
        (fst (StatsPanel rt0 ''FPS'' ''#0ff'' ''#002'' None None None doc0)) ! 3 =
     FillRect ''#0ff'' (Fin 1) (Fin 76, Fin 15, Fin 1, Fin 30)"
  using scroll_and_column [of "fst (StatsPanel rt0 ''FPS'' ''#0ff'' ''#002'' None None None doc0)"
      rt0 "Fin 30" "Fin 60"]
  by (simp add: default_panel) (simp add: rt0_def js_sub_def)

lemma div_zero_not_finite: "\<not> is_finite (js_div f v (Fin 0))"
  by (cases v) (simp_all add: signed_inf_def)

lemma sub_not_finite: "\<not> is_finite x \<Longrightarrow> \<not> is_finite (js_sub f (Fin 1) x)"
  by (cases x) (simp_all add: js_sub_def)

lemma mul_not_finite: "\<not> is_finite x \<Longrightarrow> \<not> is_finite (js_mul f x g)"
  by (cases x; cases g) (simp_all add: signed_inf_def)

lemma round_not_finite: "\<not> is_finite x \<Longrightarrow> \<not> is_finite (Math_round x)"
  by (cases x) simp_all

lemma cap_height_zero_max: "\<not> is_finite (cap_height rt v (Fin 0) g)"
  unfolding cap_height_def
  by (intro round_not_finite mul_not_finite sub_not_finite div_zero_not_finite)

text \<open>
  Claim C3, as stated, fails for the same reason: on a panel whose canvas is empty
  \<^verbatim>\<open>update\<close> ends at \<^verbatim>\<open>drawImage\<close> and no capping rectangle is drawn, whatever maxValue is.
  The panel of width 0 at the pixel ratio 1 has a canvas of 0 by 48; \<^verbatim>\<open>update(30, 0)\<close> ends
  with \<^verbatim>\<open>InvalidStateError\<close>, and its last drawing call is the one of the text.
\<close>

theorem cap_rectangle_empty_canvas_counterexample:
  "canvas_width (fst (StatsPanel rt0 ''FPS'' ''#0ff'' ''#002'' (Some (Fin 0)) None None doc0)) = 0
   \<and> fst (update rt0 (Fin 30) (Fin 0)
          (fst (StatsPanel rt0 ''FPS'' ''#0ff'' ''#002'' (Some (Fin 0)) None None doc0))) =
       Inl InvalidStateError
   \<and> requests rt0 (Fin 30) (Fin 0)
          (fst (StatsPanel rt0 ''FPS'' ''#0ff'' ''#002'' (Some (Fin 0)) None None doc0)) =
       [FillRect ''#002'' (Fin 1) (Fin 0, Fin 0, Fin 0, Fin 15),
        FillText ''#0ff'' (Fin 1) ''bold 9px Helvetica,Arial,sans-serif'' ''top''
          ''30FPS (30-30)'' (Fin 3) (Fin 2)]"
proof -
  let ?P = "fst (StatsPanel rt0 ''FPS'' ''#0ff'' ''#002'' (Some (Fin 0)) None None doc0)"
  have t: "fst (update rt0 (Fin 30) (Fin 0) ?P) = Inl InvalidStateError"
    by (simp add: update_throws_iff zero_width_panel) (simp add: rt0_def js_sub_def)
  from requests_throws [OF t] show ?thesis
    by (simp add: t zero_width_panel header_text_def Math_min_def Math_max_def show_int_def
          show_nat_examples floor_rat)
qed

text \<open>
  Claim C3, amended: every call \<^verbatim>\<open>update(value, maxValue)\<close> on a panel whose canvas has a
  width and a height other than zero returns, and the last drawing call of every call
  that returns fills, with the background colour at opacity 0.9, the rectangle of width
  PR at (GRAPH_X + GRAPH_WIDTH - PR, GRAPH_Y), the top of the new column, and the height
  it passes is \<^verbatim>\<open>round((1 - value/maxValue) * GRAPH_HEIGHT)\<close> itself, whatever its sign or
  size. When maxValue is zero that height is not a finite Number, for every value, every
  graph height and every rounding of the arithmetic.
\<close>

theorem cap_rectangle:
  "(0 < canvas_width p \<and> 0 < canvas_height p \<longrightarrow> fst (update rt value maxValue p) = Inr ())
   \<and> (fst (update rt value maxValue p) = Inr () \<longrightarrow>
      last (requests rt value maxValue p) =
        FillRect (bg p) (Fin (9 / 10))
          (js_sub (fl rt) (js_add (fl rt) (GRAPH_X p) (GRAPH_WIDTH p)) (PR p), GRAPH_Y p, PR p,
           cap_height rt value maxValue (GRAPH_HEIGHT p)))
   \<and> (maxValue = Fin 0 \<longrightarrow> \<not> is_finite (cap_height rt value maxValue (GRAPH_HEIGHT p)))"
  by (simp add: requests_update update_returns cap_height_zero_max) (simp add: cap_height_def)

theorem cap_rectangle_witness:
  "0 < canvas_width (fst (StatsPanel rt0 ''FPS'' ''#0ff'' ''#002'' None None None doc0))
   \<and> 0 < canvas_height (fst (StatsPanel rt0 ''FPS'' ''#0ff'' ''#002'' None None None doc0))
   \<and> fst (update rt0 (Fin 30) (Fin 0)
            (fst (StatsPanel rt0 ''FPS'' ''#0ff'' ''#002'' None None None doc0))) = Inr ()
   \<and> last (requests rt0 (Fin 30) (Fin 0)
        (fst (StatsPanel rt0 ''FPS'' ''#0ff'' ''#002'' None None None doc0))) =
     FillRect ''#002'' (Fin (9 / 10)) (Fin 76, Fin 15, Fin 1, NegInf)
   \<and> \<not> is_finite (cap_height rt0 (Fin 30) (Fin 0) (Fin 30))"
  using cap_rectangle [of "fst (StatsPanel rt0 ''FPS'' ''#0ff'' ''#002'' None None None doc0)"
      rt0 "Fin 30" "Fin 0"]
  by (simp add: default_panel) (simp add: rt0_def js_sub_def cap_height_def signed_inf_def)

text \<open>No clamping: a value above maxValue gives a negative height, 30 and 60 give half the graph.\<close>

lemma cap_height_examples:
  "cap_height rt0 (Fin 90) (Fin 60) (Fin 30) = Fin (- 15)"
  "cap_height rt0 (Fin 30) (Fin 60) (Fin 30) = Fin 15"
  by (simp_all add: cap_height_def rt0_def js_sub_def floor_rat)



section \<open>The resolution scale factor\<close>

text \<open>
  Claim C7, as stated, fails: \<^verbatim>\<open>round(window.devicePixelRatio || 1)\<close> replaces a missing
  or zero ratio by 1 and rounds every other one, so a positive ratio below one half gives
  the scale factor 0. At the pixel ratio 0.25 (a page zoomed out to a quarter) the scale
  factor is 0, not at least 1.
\<close>

theorem scale_factor_quarter_counterexample:
  "js_lt (Fin 0) (Fin (1 / 4))
   \<and> PR (fst (StatsPanel (rt0\<lparr>devicePixelRatio := Some (Fin (1 / 4))\<rparr>)
             ''FPS'' ''#0ff'' ''#002'' None None None doc0)) = Fin 0
   \<and> \<not> js_le (Fin 1)
        (PR (fst (StatsPanel (rt0\<lparr>devicePixelRatio := Some (Fin (1 / 4))\<rparr>)
                   ''FPS'' ''#0ff'' ''#002'' None None None doc0)))"
  by (simp add: StatsPanel_fields floor_rat)

text \<open>
  Claim C7, amended: for every panel and every positive device pixel ratio read at
  construction, the scale factor is that ratio rounded to the nearest integer, and it is
  the factor in each of the eight derived lengths; it is at least 1 exactly when the
  ratio is at least one half.
\<close>

theorem scale_factor:
  assumes "devicePixelRatio rt = Some x" and "js_lt (Fin 0) x"
    and "P = fst (StatsPanel rt nm f b w h sm d)"
  shows "PR P = Math_round x
     \<and> (js_le (Fin 1) (PR P) \<longleftrightarrow> js_le (Fin (1 / 2)) x)
     \<and> WIDTH P = js_mul (fl rt) (dflt (Fin 80) w) (PR P)
     \<and> HEIGHT P = js_mul (fl rt) (dflt (Fin 48) h) (PR P)
     \<and> TEXT_X P = js_mul (fl rt) (Fin 3) (PR P)
     \<and> TEXT_Y P =
         js_mul (fl rt) (js_mul (fl rt) (Fin 2) (js_div (fl rt) (dflt (Fin 48) h) (Fin 48))) (PR P)
     \<and> GRAPH_X P = js_mul (fl rt) (Fin 3) (PR P)
     \<and> GRAPH_Y P = js_mul (fl rt) (Fin 15) (PR P)
     \<and> GRAPH_WIDTH P = js_mul (fl rt) (js_sub (fl rt) (dflt (Fin 80) w) (Fin 6)) (PR P)
     \<and> GRAPH_HEIGHT P =
         js_mul (fl rt)
           (js_mul (fl rt) (js_sub (fl rt) (dflt (Fin 48) h) (Fin 18))
              (js_div (fl rt) (dflt (Fin 48) h) (Fin 48))) (PR P)"
proof -
  have pr: "PR P = Math_round x"
    using assms by (cases x) (auto simp add: StatsPanel_fields)
  have "js_le (Fin 1) (Math_round x) \<longleftrightarrow> js_le (Fin (1 / 2)) x"
  proof (cases x)
    case (Fin q)
    have "1 \<le> \<lfloor>q + 1 / 2\<rfloor> \<longleftrightarrow> 1 / 2 \<le> q"
      by (simp add: le_floor_iff) linarith
    then show ?thesis
      using Fin by simp
  qed simp_all
  with pr have least: "js_le (Fin 1) (PR P) \<longleftrightarrow> js_le (Fin (1 / 2)) x"
    by simp
  have geometry:
    "WIDTH P = js_mul (fl rt) (dflt (Fin 80) w) (PR P)
     \<and> HEIGHT P = js_mul (fl rt) (dflt (Fin 48) h) (PR P)
     \<and> TEXT_X P = js_mul (fl rt) (Fin 3) (PR P)
     \<and> TEXT_Y P =
         js_mul (fl rt) (js_mul (fl rt) (Fin 2) (js_div (fl rt) (dflt (Fin 48) h) (Fin 48))) (PR P)
     \<and> GRAPH_X P = js_mul (fl rt) (Fin 3) (PR P)
     \<and> GRAPH_Y P = js_mul (fl rt) (Fin 15) (PR P)
     \<and> GRAPH_WIDTH P = js_mul (fl rt) (js_sub (fl rt) (dflt (Fin 80) w) (Fin 6)) (PR P)
     \<and> GRAPH_HEIGHT P =
         js_mul (fl rt)
           (js_mul (fl rt) (js_sub (fl rt) (dflt (Fin 48) h) (Fin 18))
              (js_div (fl rt) (dflt (Fin 48) h) (Fin 48))) (PR P)"
    unfolding assms(3) by (intro conjI StatsPanel_geometry)
  from pr least geometry show ?thesis
    by blast
qed

theorem scale_factor_witness:
  "devicePixelRatio (rt0\<lparr>devicePixelRatio := Some (Fin 2)\<rparr>) = Some (Fin 2)
   \<and> js_lt (Fin 0) (Fin 2)
   \<and> PR (fst (StatsPanel (rt0\<lparr>devicePixelRatio := Some (Fin 2)\<rparr>)
             ''FPS'' ''#0ff'' ''#002'' None None None doc0)) = Fin 2
   \<and> js_le (Fin 1)
        (PR (fst (StatsPanel (rt0\<lparr>devicePixelRatio := Some (Fin 2)\<rparr>)
                   ''FPS'' ''#0ff'' ''#002'' None None None doc0)))
   \<and> WIDTH (fst (StatsPanel (rt0\<lparr>devicePixelRatio := Some (Fin 2)\<rparr>)
             ''FPS'' ''#0ff'' ''#002'' None None None doc0)) = Fin 160
   \<and> GRAPH_HEIGHT (fst (StatsPanel (rt0\<lparr>devicePixelRatio := Some (Fin 2)\<rparr>)
             ''FPS'' ''#0ff'' ''#002'' None None None doc0)) = Fin 60"
  using scale_factor [where rt = "rt0\<lparr>devicePixelRatio := Some (Fin 2)\<rparr>" and x = "Fin 2"
      and nm = "''FPS''" and f = "''#0ff''" and b = "''#002''" and w = None and h = None
      and sm = None and d = doc0, OF _ _ refl]
  by (simp add: floor_rat rt0_def js_sub_def)

section \<open>The document under the operations of the program\<close>

lemma createElement_simps:
  "fst (createElement tag d) = nextId d"
  "nextId (snd (createElement tag d)) = Suc (nextId d)"
  "elems (snd (createElement tag d)) e = (if e = nextId d then new_element tag else elems d e)"
  by (simp_all add: createElement_def)

lemma set_cssText_simps:
  "nextId (set_cssText c v d) = nextId d"
  "children (elems (set_cssText c v d) e) = children (elems d e)"
  "display (style (elems (set_cssText c v d) e)) = (if e = c then [] else display (style (elems d e)))"
  by (simp_all add: set_cssText_def)

lemma set_display_simps:
  "nextId (set_display c v d) = nextId d"
  "children (elems (set_display c v d) e) = children (elems d e)"
  "display (style (elems (set_display c v d) e)) = (if e = c then v else display (style (elems d e)))"
  by (simp_all add: set_display_def)

lemma appendChild_simps:
  "nextId (appendChild p n d) = nextId d"
  "children (elems (appendChild p n d) e) =
     (if e = p then removeAll n (children (elems d p)) @ [n] else removeAll n (children (elems d e)))"
  "style (elems (appendChild p n d) e) = style (elems d e)"
  by (simp_all add: appendChild_def detach_def)

lemma StatsPanel_doc:
  "nextId (snd (StatsPanel rt nm f b w h sm d)) = Suc (nextId d)"
  "children (elems (snd (StatsPanel rt nm f b w h sm d)) e) =
     (if e = nextId d then [] else children (elems d e))"
  "display (style (elems (snd (StatsPanel rt nm f b w h sm d)) e)) =
     (if e = nextId d then [] else display (style (elems d e)))"
  by (simp_all add: StatsPanel_def Let_def createElement_def set_cssText_def new_element_def
        split: prod.splits)


lemma loop_children: "children (elems (showPanel_loop c x i d) e) = children (elems d e)"
  by (induction c x i d rule: showPanel_loop.induct)
     (subst showPanel_loop.simps, simp add: set_display_simps)

lemma loop_untouched:
  "e \<notin> set (drop i (children (elems d c))) \<Longrightarrow>
     display (style (elems (showPanel_loop c x i d) e)) = display (style (elems d e))"
proof (induction c x i d rule: showPanel_loop.induct)
  case (1 c x i d)
  show ?case
  proof (cases "i < length (children (elems d c))")
    case True
    let ?d = "set_display (children (elems d c) ! i) (if Fin (of_nat i) = x then ''block'' else ''none'') d"
    have "drop i (children (elems d c)) = children (elems d c) ! i # drop (i + 1) (children (elems d c))"
      using True by (simp add: Cons_nth_drop_Suc)
    with 1(2) have ne: "e \<noteq> children (elems d c) ! i"
      and rest: "e \<notin> set (drop (i + 1) (children (elems d c)))"
      by simp_all
    have "display (style (elems (showPanel_loop c x (i + 1) ?d) e)) = display (style (elems ?d e))"
      using 1(1) [OF True] rest by (simp add: set_display_simps)
    then show ?thesis
      using True ne by (subst showPanel_loop.simps) (simp add: set_display_simps)
  next
    case False
    then show ?thesis by (subst showPanel_loop.simps) simp
  qed
qed

lemma loop_display:
  "distinct (children (elems d c)) \<Longrightarrow> i \<le> k \<Longrightarrow> k < length (children (elems d c)) \<Longrightarrow>
     display (style (elems (showPanel_loop c x i d) (children (elems d c) ! k))) =
       (if Fin (of_nat k) = x then ''block'' else ''none'')"
proof (induction c x i d rule: showPanel_loop.induct)
  case (1 c x i d)
  let ?cs = "children (elems d c)"
  let ?d = "set_display (?cs ! i) (if Fin (of_nat i) = x then ''block'' else ''none'') d"
  from 1(3,4) have il: "i < length ?cs" by simp
  have unf: "showPanel_loop c x i d = showPanel_loop c x (i + 1) ?d"
    using il by (subst showPanel_loop.simps) simp
  show ?case
  proof (cases "k = i")
    case True
    have "?cs ! i \<notin> set (drop (i + 1) ?cs)"
      using 1(2) il by (auto simp: in_set_conv_nth distinct_conv_nth)
    then have "display (style (elems (showPanel_loop c x (i + 1) ?d) (?cs ! i))) =
        display (style (elems ?d (?cs ! i)))"
      using loop_untouched [of "?cs ! i" "i + 1" ?d c x] by (simp add: set_display_simps)
    then show ?thesis
      using True unf by (simp add: set_display_simps)
  next
    case False
    with 1(3) have "i + 1 \<le> k" by simp
    then show ?thesis
      using 1(1) [OF il] 1(2,4) unf by (simp add: set_display_simps)
  qed
qed

lemma showPanel_registered: "registered (showPanel x s) = registered s"
  by (simp add: registered_def showPanel_def loop_children)

lemma showPanel_displays:
  assumes "distinct (registered s)"
  shows "map (display_of (showPanel x s)) (registered s) =
     map (\<lambda>k. if Fin (of_nat k) = x then ''block'' else ''none'') [0..<length (registered s)]"
proof (rule nth_equalityI)
  show "length (map (display_of (showPanel x s)) (registered s)) =
      length (map (\<lambda>k. if Fin (of_nat k) = x then ''block'' else ''none'') [0..<length (registered s)])"
    by simp
next
  fix k assume "k < length (map (display_of (showPanel x s)) (registered s))"
  then have k: "k < length (registered s)" by simp
  then show "map (display_of (showPanel x s)) (registered s) ! k =
      map (\<lambda>k. if Fin (of_nat k) = x then ''block'' else ''none'') [0..<length (registered s)] ! k"
    using loop_display [of "snd s" "container (fst s)" 0 k x] assms
    by (simp add: display_of_def showPanel_def registered_def)
qed

section \<open>The overlay after construction\<close>

lemma Stats_registered:
  "registered (snd (Stats rt w h sm d)) =
     (if has_memory rt then [Suc (nextId d), Suc (Suc (nextId d)), Suc (Suc (Suc (nextId d)))]
      else [Suc (nextId d), Suc (Suc (nextId d))])"
  by (simp add: Stats_def Let_def split_def registered_def showPanel_def addPanel_def
        loop_children appendChild_simps StatsPanel_doc StatsPanel_fields set_cssText_simps
        createElement_simps new_element_def)

lemma Stats_panels:
  "name (fpsPanel (fst (Stats rt w h sm d))) = ''FPS''"
  "panel_dom (fpsPanel (fst (Stats rt w h sm d))) = Suc (nextId d)"
  "name (msPanel (fst (Stats rt w h sm d))) = ''MS''"
  "panel_dom (msPanel (fst (Stats rt w h sm d))) = Suc (Suc (nextId d))"
  "map_option name (memPanel (fst (Stats rt w h sm d))) = (if has_memory rt then Some ''MB'' else None)"
  "map_option panel_dom (memPanel (fst (Stats rt w h sm d))) =
     (if has_memory rt then Some (Suc (Suc (Suc (nextId d)))) else None)"
  "currentPanelIndex (fst (Stats rt w h sm d)) = Fin 0"
  "var_currentPanelIndex (fst (snd (Stats rt w h sm d))) = Fin 0"
  "container (fst (snd (Stats rt w h sm d))) = nextId d"
  "stats_dom (fst (Stats rt w h sm d)) = nextId d"
  by (simp_all add: Stats_def Let_def split_def showPanel_def addPanel_def
        appendChild_simps StatsPanel_doc StatsPanel_fields set_cssText_simps
        createElement_simps)

lemma Stats_distinct: "distinct (registered (snd (Stats rt w h sm d)))"
  by (simp add: Stats_registered)

lemma Stats_ends_with_showPanel: "\<exists>s. snd (Stats rt w h sm d) = showPanel (Fin 0) s"
proof (cases "has_memory rt")
  case True
  then show ?thesis
    by (simp add: Stats_def Let_def split_def del: split_paired_Ex) (rule exI, rule refl)
next
  case False
  then show ?thesis
    by (simp add: Stats_def Let_def split_def del: split_paired_Ex) (rule exI, rule refl)
qed

lemma js_out_of_range:
  "js_lt x (Fin 0) \<or> js_le (Fin (of_nat n)) x \<Longrightarrow> k < n \<Longrightarrow> Fin (of_nat k) \<noteq> x"
  by (cases x) auto

lemma case_map_option_dom:
  "(case m of None \<Rightarrow> [] | Some mb \<Rightarrow> [panel_dom mb]) =
     (case map_option panel_dom m of None \<Rightarrow> [] | Some e \<Rightarrow> [e])"
  by (cases m) simp_all

lemma nextId_doc0: "nextId doc0 = 0"
  by (simp add: doc0_def)


lemma Stats_memPanel: "(memPanel (fst (Stats rt w h sm d)) = None) = (\<not> has_memory rt)"
  by (simp add: Stats_def Let_def split_def)

lemma has_memory_rt0: "\<not> has_memory rt0"
  by (simp add: has_memory_def rt0_def)

lemma has_memory_example:
  "has_memory (rt0\<lparr>window_performance :=
     Some (Performance (Some (MemoryInfo (Fin 1000000) (Fin 2000000))))\<rparr>)"
  by (simp add: has_memory_def)

lemma addPanel_distinct:
  "distinct (registered s) \<Longrightarrow> distinct (registered (snd (addPanel p s)))"
  by (simp add: registered_def addPanel_def appendChild_simps distinct_removeAll)

text \<open>
  Claim C8: the construction of an overlay builds the panel labelled FPS and then the
  panel labelled MS, and a third panel, labelled MB, exactly when the environment has
  \<^verbatim>\<open>window.performance.memory\<close>; the registered panels are these, in this order, so there
  are two of them without the memory extension and three with it. The environment is
  read by \<^verbatim>\<open>Stats\<close> alone: \<^verbatim>\<open>addPanel\<close> and \<^verbatim>\<open>showPanel\<close> do not take it.
\<close>

theorem built_in_panels:
  "name (fpsPanel (fst (Stats rt w h sm d))) = ''FPS''
   \<and> name (msPanel (fst (Stats rt w h sm d))) = ''MS''
   \<and> map_option name (memPanel (fst (Stats rt w h sm d))) =
        (if has_memory rt then Some ''MB'' else None)
   \<and> registered (snd (Stats rt w h sm d)) =
        panel_dom (fpsPanel (fst (Stats rt w h sm d)))
        # panel_dom (msPanel (fst (Stats rt w h sm d)))
        # (case memPanel (fst (Stats rt w h sm d)) of None \<Rightarrow> [] | Some mb \<Rightarrow> [panel_dom mb])
   \<and> distinct (registered (snd (Stats rt w h sm d)))
   \<and> length (registered (snd (Stats rt w h sm d))) = (if has_memory rt then 3 else 2)"
  by (simp add: Stats_panels Stats_registered case_map_option_dom)

theorem built_in_panels_witness:
  "map_option name (memPanel (fst (Stats (rt0\<lparr>window_performance :=
       Some (Performance (Some (MemoryInfo (Fin 1000000) (Fin 2000000))))\<rparr>) None None None doc0)))
     = Some ''MB''
   \<and> registered (snd (Stats (rt0\<lparr>window_performance :=
       Some (Performance (Some (MemoryInfo (Fin 1000000) (Fin 2000000))))\<rparr>) None None None doc0))
     = [1, 2, 3]
   \<and> memPanel (fst (Stats rt0 None None None doc0)) = None
   \<and> registered (snd (Stats rt0 None None None doc0)) = [1, 2]"
  using built_in_panels [of "rt0\<lparr>window_performance :=
       Some (Performance (Some (MemoryInfo (Fin 1000000) (Fin 2000000))))\<rparr>" None None None doc0]
    built_in_panels [of rt0 None None None doc0]
  by (simp add: has_memory_example has_memory_rt0 Stats_panels Stats_memPanel nextId_doc0
        case_map_option_dom)

text \<open>
  Claim C9: right after construction the first registered panel, the one labelled FPS,
  has the display style \<^verbatim>\<open>block\<close> and every other registered panel has \<^verbatim>\<open>none\<close>.
\<close>

theorem construction_shows_first:
  "map (display_of (snd (Stats rt w h sm d))) (registered (snd (Stats rt w h sm d))) =
     (if has_memory rt then [''block'', ''none'', ''none''] else [''block'', ''none''])
   \<and> registered (snd (Stats rt w h sm d)) ! 0 = panel_dom (fpsPanel (fst (Stats rt w h sm d)))"
proof -
  obtain s where s: "snd (Stats rt w h sm d) = showPanel (Fin 0) s"
    using Stats_ends_with_showPanel by blast
  have r: "registered s = registered (snd (Stats rt w h sm d))"
    by (simp add: s showPanel_registered)
  then have "distinct (registered s)"
    by (simp add: Stats_registered)
  from showPanel_displays [OF this, of "Fin 0"]
  have "map (display_of (snd (Stats rt w h sm d))) (registered (snd (Stats rt w h sm d))) =
      map (\<lambda>k. if Fin (of_nat k) = Fin 0 then ''block'' else ''none'')
        [0..<length (registered (snd (Stats rt w h sm d)))]"
    by (simp add: s [symmetric] r)
  then show ?thesis
    by (simp add: Stats_registered Stats_panels upt_rec)
qed

theorem construction_shows_first_witness:
  "map (display_of (snd (Stats rt0 None None None doc0))) [1, 2] = [''block'', ''none'']
   \<and> panel_dom (fpsPanel (fst (Stats rt0 None None None doc0))) = 1"
  using construction_shows_first [of rt0 None None None doc0]
  by (simp add: has_memory_rt0 Stats_registered Stats_panels nextId_doc0 numeral_2_eq_2)

text \<open>
  Claim C5 at the input where the code departs from it: after \<^verbatim>\<open>Stats()\<close> and
  \<^verbatim>\<open>showPanel(1)\<close> the variable \<^verbatim>\<open>currentPanelIndex\<close> of the scope is 1 and the second panel
  is the one shown, while the property \<^verbatim>\<open>currentPanelIndex\<close> of the returned object, a
  copy of the variable made when the object was built, is 0. The documentation comment
  of \<^verbatim>\<open>Stats\<close> calls the property the index of the currently shown panel.
\<close>

theorem exposed_index_stale:
  "currentPanelIndex (fst (Stats rt0 None None None doc0)) = Fin 0
   \<and> var_currentPanelIndex (fst (showPanel (Fin 1) (snd (Stats rt0 None None None doc0)))) = Fin 1
   \<and> map (display_of (showPanel (Fin 1) (snd (Stats rt0 None None None doc0))))
        (registered (snd (Stats rt0 None None None doc0))) = [''none'', ''block'']"
proof -
  have "distinct (registered (snd (Stats rt0 None None None doc0)))"
    by (simp add: Stats_registered)
  from showPanel_displays [OF this, of "Fin 1"] show ?thesis
    by (simp add: Stats_panels showPanel_def has_memory_rt0 Stats_registered nextId_doc0 upt_rec)
qed

text \<open>
  Claim C6: in an overlay with \<open>n\<close> registered panels (each element once among the
  children of the container, as in every document), \<^verbatim>\<open>showPanel(i)\<close> and then
  \<^verbatim>\<open>showPanel(j)\<close> with \<open>i\<close> and \<open>j\<close> below \<open>n\<close> and different leave the panel \<open>j\<close> with
  the display style \<^verbatim>\<open>block\<close> and all the others with \<^verbatim>\<open>none\<close>; \<^verbatim>\<open>showPanel(x)\<close> with
  \<open>x < 0\<close> or \<open>x >= n\<close> leaves all of them with \<^verbatim>\<open>none\<close>. \<^verbatim>\<open>showPanel\<close> has no failing
  branch and its loop terminates, so it returns for every index.
\<close>

theorem showPanel_selects:
  assumes "distinct (registered s)"
  shows "(i < length (registered s) \<and> j < length (registered s) \<and> i \<noteq> j \<longrightarrow>
       registered (showPanel (Fin (of_nat j)) (showPanel (Fin (of_nat i)) s)) = registered s
       \<and> map (display_of (showPanel (Fin (of_nat j)) (showPanel (Fin (of_nat i)) s))) (registered s) =
           map (\<lambda>k. if k = j then ''block'' else ''none'') [0..<length (registered s)])
     \<and> (js_lt x (Fin 0) \<or> js_le (Fin (of_nat (length (registered s)))) x \<longrightarrow>
       registered (showPanel x s) = registered s
       \<and> map (display_of (showPanel x s)) (registered s) =
           replicate (length (registered s)) ''none'')"
proof -
  have d1: "distinct (registered (showPanel (Fin (of_nat i)) s))"
    using assms by (simp add: showPanel_registered)
  have a: "map (display_of (showPanel (Fin (of_nat j)) (showPanel (Fin (of_nat i)) s))) (registered s) =
           map (\<lambda>k. if k = j then ''block'' else ''none'') [0..<length (registered s)]"
    using showPanel_displays [OF d1, of "Fin (of_nat j)"] by (simp add: showPanel_registered)
  have b: "map (display_of (showPanel x s)) (registered s) = replicate (length (registered s)) ''none''"
    if "js_lt x (Fin 0) \<or> js_le (Fin (of_nat (length (registered s)))) x"
  proof -
    have "map (\<lambda>k. if Fin (of_nat k) = x then ''block'' else ''none'') [0..<length (registered s)]
        = map (\<lambda>k. ''none'') [0..<length (registered s)]"
      using js_out_of_range [OF that] by (intro map_cong) auto
    then show ?thesis
      using showPanel_displays [OF assms, of x] by (simp add: map_replicate_const)
  qed
  show ?thesis
    using a b by (simp add: showPanel_registered)
qed

theorem showPanel_selects_witness:
  "distinct (registered (snd (Stats rt0 None None None doc0)))
   \<and> map (display_of (showPanel (Fin 1) (showPanel (Fin 0) (snd (Stats rt0 None None None doc0)))))
        [1, 2] = [''none'', ''block'']
   \<and> js_le (Fin 2) (Fin 5)
   \<and> map (display_of (showPanel (Fin 5) (snd (Stats rt0 None None None doc0)))) [1, 2] =
        [''none'', ''none'']"
  using showPanel_selects [of "snd (Stats rt0 None None None doc0)" 0 1 "Fin 5"]
  by (simp add: has_memory_rt0 Stats_registered nextId_doc0 upt_rec numeral_2_eq_2)



end
